theory Spec2Isabelle
  imports Main "HOL-Library.Extended_Nat"
begin

section \<open>Cells, colours and the grid\<close>

text \<open>
  The program keeps the state of a cell in its \<^verbatim>\<open>color\<close> attribute, an RGB triple compared
  with the constants of the palette. The palette is kept as it is in \<^verbatim>\<open>main.py\<close>.
\<close>

type_synonym color = "nat \<times> nat \<times> nat"

abbreviation RED :: color where "RED \<equiv> (255, 0, 0)"
abbreviation GREEN :: color where "GREEN \<equiv> (0, 255, 0)"
abbreviation WHITE :: color where "WHITE \<equiv> (255, 255, 255)"
abbreviation BLACK :: color where "BLACK \<equiv> (0, 0, 0)"
abbreviation PURPLE :: color where "PURPLE \<equiv> (128, 0, 128)"
abbreviation PINK :: color where "PINK \<equiv> (255, 0, 255)"
abbreviation BLUE :: color where "BLUE \<equiv> (0, 0, 128)"

text \<open>
  \<^verbatim>\<open>create_grid\<close> builds exactly one \<^verbatim>\<open>Node\<close> for every index pair \<open>(i, j)\<close> and stores it at
  \<^verbatim>\<open>grid[i][j]\<close> with \<^verbatim>\<open>row = i\<close>, \<^verbatim>\<open>col = j\<close>; neither attribute is assigned again, and
  the class defines no \<^verbatim>\<open>__eq__\<close> or \<^verbatim>\<open>__hash__\<close>. A reference to a node is therefore modelled
  by the pair \<open>(row, col)\<close> that \<^verbatim>\<open>get_pos\<close> returns, and the grid is the store that maps
  every reference to the mutable attributes of its node: the colour and the list of
  (references to) neighbours. \<^verbatim>\<open>total_rows\<close> is the same for every node of a grid and is kept
  once. The pixel attributes \<^verbatim>\<open>x\<close>, \<^verbatim>\<open>y\<close>, \<^verbatim>\<open>width\<close> only feed the renderer.
\<close>

type_synonym pos = "int \<times> int"

record grid =
  total_rows :: int
  color :: "pos \<Rightarrow> color"
  neighbours :: "pos \<Rightarrow> pos list"

definition create_grid :: "int \<Rightarrow> grid" where
  "create_grid rows = \<lparr>total_rows = rows, color = (\<lambda>_. WHITE), neighbours = (\<lambda>_. [])\<rparr>"

text \<open>The nodes of a grid, in the order of \<^verbatim>\<open>for row in grid for node in row\<close>.\<close>

definition nodes :: "grid \<Rightarrow> pos list" where
  "nodes grid = concat (map (\<lambda>i. map (\<lambda>j. (i, j)) [0..total_rows grid - 1]) [0..total_rows grid - 1])"

definition in_grid :: "grid \<Rightarrow> pos \<Rightarrow> bool" where
  "in_grid grid p = (0 \<le> fst p \<and> fst p < total_rows grid \<and> 0 \<le> snd p \<and> snd p < total_rows grid)"

definition get_pos :: "pos \<Rightarrow> pos" where
  "get_pos self = (fst self, snd self)"

definition is_closed :: "grid \<Rightarrow> pos \<Rightarrow> bool" where
  "is_closed grid self = (color grid self = RED)"

definition is_open :: "grid \<Rightarrow> pos \<Rightarrow> bool" where
  "is_open grid self = (color grid self = GREEN)"

definition is_barrier :: "grid \<Rightarrow> pos \<Rightarrow> bool" where
  "is_barrier grid self = (color grid self = BLACK)"

definition is_start :: "grid \<Rightarrow> pos \<Rightarrow> bool" where
  "is_start grid self = (color grid self = PINK)"

definition is_end :: "grid \<Rightarrow> pos \<Rightarrow> bool" where
  "is_end grid self = (color grid self = BLUE)"

definition set_color :: "grid \<Rightarrow> pos \<Rightarrow> color \<Rightarrow> grid" where
  "set_color grid self c = grid\<lparr>color := (color grid)(self := c)\<rparr>"

definition reset :: "grid \<Rightarrow> pos \<Rightarrow> grid" where
  "reset grid self = set_color grid self WHITE"

definition make_start :: "grid \<Rightarrow> pos \<Rightarrow> grid" where
  "make_start grid self = set_color grid self PINK"

definition make_closed :: "grid \<Rightarrow> pos \<Rightarrow> grid" where
  "make_closed grid self = set_color grid self RED"

definition make_open :: "grid \<Rightarrow> pos \<Rightarrow> grid" where
  "make_open grid self = set_color grid self GREEN"

definition make_barrier :: "grid \<Rightarrow> pos \<Rightarrow> grid" where
  "make_barrier grid self = set_color grid self BLACK"

definition make_end :: "grid \<Rightarrow> pos \<Rightarrow> grid" where
  "make_end grid self = set_color grid self BLUE"

definition make_path :: "grid \<Rightarrow> pos \<Rightarrow> grid" where
  "make_path grid self = set_color grid self PURPLE"

text \<open>
  \<^verbatim>\<open>Node.update_neighbours\<close>: the list is emptied and the four directions are tried in the
  order down, up, right, left. Python's \<^verbatim>\<open>and\<close> evaluates the bound first, so the grid is
  only indexed inside its bounds for a node of the grid.
\<close>

definition update_neighbours :: "grid \<Rightarrow> pos \<Rightarrow> grid" where
  "update_neighbours grid self =
     (let row = fst self; col = snd self;
          n0 = [];
          n1 = (if row < total_rows grid - 1 \<and> \<not> is_barrier grid (row + 1, col)
                then n0 @ [(row + 1, col)] else n0);
          n2 = (if row > 0 \<and> \<not> is_barrier grid (row - 1, col)
                then n1 @ [(row - 1, col)] else n1);
          n3 = (if col < total_rows grid - 1 \<and> \<not> is_barrier grid (row, col + 1)
                then n2 @ [(row, col + 1)] else n2);
          n4 = (if col > 0 \<and> \<not> is_barrier grid (row, col - 1)
                then n3 @ [(row, col - 1)] else n3)
      in grid\<lparr>neighbours := (neighbours grid)(self := n4)\<rparr>)"

text \<open>
  The pass of \<^verbatim>\<open>main\<close> before a search:
  \<^verbatim>\<open>for row in grid: for node in row: node.update_neighbours(grid)\<close>.
\<close>

definition update_all_neighbours :: "grid \<Rightarrow> grid" where
  "update_all_neighbours grid = fold (\<lambda>node g. update_neighbours g node) (nodes grid) grid"

text \<open>\<^verbatim>\<open>heuristic\<close>: the two positions are unpacked and the absolute differences added.\<close>

fun heuristic :: "pos \<Rightarrow> pos \<Rightarrow> int" where
  "heuristic (x1, y1) (x2, y2) = \<bar>x1 - x2\<bar> + \<bar>y1 - y2\<bar>"

subsection \<open>Paths on the grid (the vocabulary of the claims)\<close>

text \<open>One move in one of the four directions.\<close>

definition adjacent :: "pos \<Rightarrow> pos \<Rightarrow> bool" where
  "adjacent p q = (q = (fst p + 1, snd p) \<or> q = (fst p - 1, snd p)
                 \<or> q = (fst p, snd p + 1) \<or> q = (fst p, snd p - 1))"

text \<open>A walk is a non-empty list of cells, each one move from the one before.\<close>

fun is_walk :: "pos list \<Rightarrow> bool" where
  "is_walk [] = False"
| "is_walk [p] = True"
| "is_walk (p # q # ps) = (adjacent p q \<and> is_walk (q # ps))"

text \<open>A barrier-free path stays inside the grid and off the Barrier cells.\<close>

definition free_path :: "grid \<Rightarrow> pos list \<Rightarrow> bool" where
  "free_path grid ps = (is_walk ps \<and> list_all (\<lambda>p. in_grid grid p \<and> \<not> is_barrier grid p) ps)"

section \<open>The search\<close>

text \<open>
  \<^verbatim>\<open>g_score\<close> and \<^verbatim>\<open>f_score\<close> hold \<^verbatim>\<open>float("inf")\<close> or a non-negative integer (0 at the
  start, then sums of 1 and of the heuristic): an extended natural number. A dictionary is a
  map whose domain is its key set; a lookup of a missing key, and \<^verbatim>\<open>set.remove\<close> of a
  missing element, raise \<^verbatim>\<open>KeyError\<close>.
\<close>

datatype error = KeyError

text \<open>An entry of the priority queue: \<^verbatim>\<open>(f_score, count, node)\<close>.\<close>

type_synonym entry = "enat \<times> nat \<times> pos"

text \<open>\<^verbatim>\<open>Node.__lt__\<close> answers \<^verbatim>\<open>False\<close> for every pair of nodes.\<close>

definition node_lt :: "pos \<Rightarrow> pos \<Rightarrow> bool" where
  "node_lt self other = False"

text \<open>
  Python compares tuples at the first component where they differ; the nodes are only
  compared when score and count are both equal.
\<close>

fun entry_lt :: "entry \<Rightarrow> entry \<Rightarrow> bool" where
  "entry_lt (f1, c1, n1) (f2, c2, n2) =
     (if f1 \<noteq> f2 then f1 < f2 else if c1 \<noteq> c2 then c1 < c2 else n1 \<noteq> n2 \<and> node_lt n1 n2)"

text \<open>
  \<^verbatim>\<open>PriorityQueue\<close>: \<^verbatim>\<open>get\<close> hands out a least entry. The queue is kept as the list of its
  entries in ascending order, so \<^verbatim>\<open>put\<close> inserts before the first greater entry and
  \<^verbatim>\<open>get\<close> takes the head.
\<close>

fun put :: "entry \<Rightarrow> entry list \<Rightarrow> entry list" where
  "put e [] = [e]"
| "put e (x # xs) = (if entry_lt e x then e # x # xs else x # put e xs)"

text \<open>
  The state of one run: the grid (the colours are written during the run), the state
  \<open>world\<close> of whatever the callback \<^verbatim>\<open>draw\<close> acts on, and the local variables of
  \<^verbatim>\<open>a_star_algorithm\<close>.
\<close>

record 'w search =
  the_grid :: grid
  world :: 'w
  count :: nat
  open_set :: "entry list"
  came_from :: "pos \<rightharpoonup> pos"
  g_score :: "pos \<rightharpoonup> enat"
  f_score :: "pos \<rightharpoonup> enat"
  open_set_hash :: "pos set"

text \<open>The body of \<^verbatim>\<open>for neighbour in current.neighbours\<close> (lines 288 to 301).\<close>

definition relax :: "pos \<Rightarrow> pos \<Rightarrow> pos \<Rightarrow> 'w search \<Rightarrow> error + 'w search" where
  "relax end_node current neighbour s =
     (case g_score s current of
        None \<Rightarrow> Inl KeyError
      | Some g_current \<Rightarrow>
          let temp_g_score = g_current + 1 in
          (case g_score s neighbour of
             None \<Rightarrow> Inl KeyError
           | Some g_neighbour \<Rightarrow>
               if temp_g_score < g_neighbour then
                 let f_neighbour = temp_g_score + enat (nat (heuristic (get_pos neighbour) (get_pos end_node)));
                     s1 = s\<lparr>came_from := (came_from s)(neighbour \<mapsto> current),
                            g_score := (g_score s)(neighbour \<mapsto> temp_g_score),
                            f_score := (f_score s)(neighbour \<mapsto> f_neighbour)\<rparr>
                 in if neighbour \<notin> open_set_hash s1 then
                      Inr (s1\<lparr>count := count s1 + 1,
                              open_set := put (f_neighbour, count s1 + 1, neighbour) (open_set s1),
                              open_set_hash := insert neighbour (open_set_hash s1),
                              the_grid := make_open (the_grid s1) neighbour\<rparr>)
                    else Inr s1
               else Inr s))"

fun relax_all :: "pos \<Rightarrow> pos \<Rightarrow> pos list \<Rightarrow> 'w search \<Rightarrow> error + 'w search" where
  "relax_all end_node current [] s = Inr s"
| "relax_all end_node current (neighbour # rest) s =
     (case relax end_node current neighbour s of
        Inl e \<Rightarrow> Inl e
      | Inr s' \<Rightarrow> relax_all end_node current rest s')"

text \<open>
  The rest of one iteration for a popped cell that is not the end (lines 287 to 306): the
  neighbours, one call of \<^verbatim>\<open>draw\<close>, and the Closed mark for every cell but the start.
\<close>

definition expand :: "(grid \<Rightarrow> 'w \<Rightarrow> 'w) \<Rightarrow> pos \<Rightarrow> pos \<Rightarrow> pos \<Rightarrow> 'w search \<Rightarrow> error + 'w search" where
  "expand draw start end_node current s =
     (case relax_all end_node current (neighbours (the_grid s) current) s of
        Inl e \<Rightarrow> Inl e
      | Inr s2 \<Rightarrow>
          let s3 = s2\<lparr>world := draw (the_grid s2) (world s2)\<rparr>
          in Inr (if current \<noteq> start
                  then s3\<lparr>the_grid := make_closed (the_grid s3) current\<rparr> else s3))"

text \<open>
  \<^verbatim>\<open>reconstruct_path\<close>. The callback takes no argument in the source and closes over the
  grid; here it is handed the grid it would read. A predecessor map with a cycle keeps the
  source in its \<^verbatim>\<open>while\<close> for ever, which is the value \<open>None\<close>.
\<close>

partial_function (option) reconstruct_path ::
  "(pos \<rightharpoonup> pos) \<Rightarrow> pos \<Rightarrow> (grid \<Rightarrow> 'w \<Rightarrow> 'w) \<Rightarrow> grid \<times> 'w \<Rightarrow> (grid \<times> 'w) option" where
  "reconstruct_path came_from_map current draw gw =
     (case came_from_map current of
        None \<Rightarrow> Some gw
      | Some previous \<Rightarrow>
          let g1 = (if \<not> is_start (fst gw) previous then make_path (fst gw) previous else fst gw)
          in reconstruct_path came_from_map previous draw (g1, draw g1 (snd gw)))"

text \<open>
  The \<^verbatim>\<open>while not open_set.empty()\<close> loop. The poll of the window's events at the head of
  every iteration only matters when the user closes the window, which ends the process; the
  runs described here are the ones that are not interrupted.
\<close>

partial_function (option) search_loop ::
  "(grid \<Rightarrow> 'w \<Rightarrow> 'w) \<Rightarrow> pos \<Rightarrow> pos \<Rightarrow> 'w search \<Rightarrow> (error + bool \<times> 'w search) option" where
  "search_loop draw start end_node s =
     (case open_set s of
        [] \<Rightarrow> Some (Inr (False, s))
      | entry # remaining \<Rightarrow>
          let current = snd (snd entry) in
          if current \<notin> open_set_hash s then Some (Inl KeyError)
          else
            let s1 = s\<lparr>open_set := remaining, open_set_hash := open_set_hash s - {current}\<rparr> in
            if current = end_node then
              (case reconstruct_path (came_from s1) end_node draw (the_grid s1, world s1) of
                 None \<Rightarrow> None
               | Some gw \<Rightarrow>
                   Some (Inr (True, s1\<lparr>the_grid := make_end (fst gw) end_node, world := snd gw\<rparr>)))
            else
              (case expand draw start end_node current s1 of
                 Inl e \<Rightarrow> Some (Inl e)
               | Inr s4 \<Rightarrow> search_loop draw start end_node s4))"

text \<open>The state at the head of the loop (lines 260 to 271).\<close>

definition initial :: "grid \<Rightarrow> pos \<Rightarrow> pos \<Rightarrow> 'w \<Rightarrow> 'w search" where
  "initial grid start end_node w =
     \<lparr>the_grid = grid, world = w, count = 0,
      open_set = put (0, 0, start) [],
      came_from = Map.empty,
      g_score = (\<lambda>node. if node \<in> set (nodes grid) then Some \<infinity> else None)(start \<mapsto> 0),
      f_score = (\<lambda>node. if node \<in> set (nodes grid) then Some \<infinity> else None)
                  (start \<mapsto> enat (nat (heuristic (get_pos start) (get_pos end_node)))),
      open_set_hash = {start}\<rparr>"

text \<open>
  \<^verbatim>\<open>a_star_algorithm\<close>. The source returns the Boolean and leaves its effects in the grid
  and on the screen; the final values of the local variables are returned with them, for the
  statements below.
\<close>

definition a_star_algorithm ::
  "(grid \<Rightarrow> 'w \<Rightarrow> 'w) \<Rightarrow> grid \<Rightarrow> pos \<Rightarrow> pos \<Rightarrow> 'w \<Rightarrow> (error + bool \<times> 'w search) option" where
  "a_star_algorithm draw grid start end_node w = search_loop draw start end_node (initial grid start end_node w)"

text \<open>
  The length of the reconstructed path: the number of steps of the walk along
  \<^verbatim>\<open>came_from\<close> from a cell back to the cell without predecessor.
\<close>

partial_function (option) chain_length :: "(pos \<rightharpoonup> pos) \<Rightarrow> pos \<Rightarrow> nat \<Rightarrow> nat option" where
  "chain_length came_from_map current n =
     (case came_from_map current of
        None \<Rightarrow> Some n
      | Some previous \<Rightarrow> chain_length came_from_map previous (Suc n))"

section \<open>Example grids\<close>

text \<open>A 3 by 3 grid whose start \<open>(0, 0)\<close> is walled in by the Barrier cells \<open>(0, 1)\<close> and \<open>(1, 0)\<close>.\<close>

definition enclosed_grid :: grid where
  "enclosed_grid =
     make_barrier (make_barrier (make_end (make_start (create_grid 3) (0, 0)) (2, 2)) (0, 1)) (1, 0)"

text \<open>A 3 by 3 grid without barriers, start \<open>(0, 0)\<close> and end \<open>(1, 1)\<close>.\<close>

definition small_grid :: grid where
  "small_grid = make_end (make_start (create_grid 3) (0, 0)) (1, 1)"

text \<open>
  An 8 by 8 grid with start \<open>(2, 0)\<close> and end \<open>(0, 7)\<close>. Two corridors leave the start: the
  upper one through row 0 and the lower one along row 3; they meet again at \<open>(2, 5)\<close>.
\<close>

definition detour_grid :: grid where
  "detour_grid = fold (\<lambda>p g. make_barrier g p)
     [(0, 0), (0, 1), (0, 6), (1, 3), (1, 4), (1, 6), (2, 1), (2, 4),
      (4, 0), (4, 1), (4, 2), (4, 3), (4, 4)]
     (make_end (make_start (create_grid 8) (2, 0)) (0, 7))"

text \<open>The list that \<^verbatim>\<open>update_neighbours\<close> computes for a cell.\<close>

definition passable :: "grid \<Rightarrow> pos \<Rightarrow> pos list" where
  "passable g p = neighbours (update_neighbours g p) p"

section \<open>The heuristic\<close>

lemma heuristic_step: "adjacent p q \<Longrightarrow> heuristic p r \<le> 1 + heuristic q r"
  by (cases p; cases q; cases r) (auto simp: adjacent_def)

lemma heuristic_walk: "is_walk ps \<Longrightarrow> heuristic (hd ps) (last ps) \<le> int (length ps) - 1"
proof (induction ps rule: is_walk.induct)
  case 1
  then show ?case by simp
next
  case (2 p)
  show ?case by (cases p) simp
next
  case (3 p q ps)
  then have "heuristic q (last (q # ps)) \<le> int (length (q # ps)) - 1"
    by simp
  moreover have "heuristic p (last (q # ps)) \<le> 1 + heuristic q (last (q # ps))"
    using 3 by (intro heuristic_step) simp
  ultimately show ?case by simp
qed

text \<open>
  Claim C5. \<^verbatim>\<open>heuristic\<close> is the Manhattan distance of its two \<open>(row, col)\<close> arguments, and
  it is at most the number of moves of every walk in the four directions from \<open>a\<close> to \<open>b\<close>,
  so at most the length of a shortest one on the grid without barriers.
\<close>

theorem heuristic_manhattan_admissible:
  "heuristic (r1, c1) (r2, c2) = \<bar>r1 - r2\<bar> + \<bar>c1 - c2\<bar> \<and>
   (\<forall>ps. is_walk ps \<and> hd ps = a \<and> last ps = b \<longrightarrow> heuristic a b \<le> int (length ps) - 1)"
  using heuristic_walk by auto

theorem heuristic_manhattan_admissible_witness:
  "heuristic (0, 0) (1, 2) = 3 \<and> is_walk [(0, 0), (0, 1), (1, 1), (1, 2)] \<and>
   heuristic (0, 0) (1, 2) \<le> int (length [(0, 0), (0, 1), (1, 1), (1, 2 :: int)]) - 1"
  using heuristic_manhattan_admissible [of 0 0 1 2 "(0, 0)" "(1, 2)"]
  by (simp add: adjacent_def)

section \<open>Neighbour lists\<close>

lemma update_neighbours_list:
  "neighbours (update_neighbours g (r, c)) (r, c) =
     (if r < total_rows g - 1 \<and> \<not> is_barrier g (r + 1, c) then [(r + 1, c)] else []) @
     (if r > 0 \<and> \<not> is_barrier g (r - 1, c) then [(r - 1, c)] else []) @
     (if c < total_rows g - 1 \<and> \<not> is_barrier g (r, c + 1) then [(r, c + 1)] else []) @
     (if c > 0 \<and> \<not> is_barrier g (r, c - 1) then [(r, c - 1)] else [])"
  by (simp add: update_neighbours_def Let_def)

lemma update_neighbours_filter:
  assumes "in_grid g (r, c)"
  shows "neighbours (update_neighbours g (r, c)) (r, c) =
         filter (\<lambda>q. in_grid g q \<and> \<not> is_barrier g q) [(r + 1, c), (r - 1, c), (r, c + 1), (r, c - 1)]"
  using assms unfolding update_neighbours_list by (auto simp: in_grid_def)

text \<open>
  Claim C7. After \<^verbatim>\<open>update_neighbours\<close> on a cell of the grid, its list holds, in the order
  down, up, right, left, exactly the cells one move away that are inside the grid and not
  Barrier: at most four entries, none out of bounds, none a Barrier.
\<close>

theorem update_neighbours_exact:
  assumes "in_grid g p"
  shows "neighbours (update_neighbours g p) p =
           filter (\<lambda>q. in_grid g q \<and> \<not> is_barrier g q)
             [(fst p + 1, snd p), (fst p - 1, snd p), (fst p, snd p + 1), (fst p, snd p - 1)]
       \<and> set (neighbours (update_neighbours g p) p) =
           {q. adjacent p q \<and> in_grid g q \<and> \<not> is_barrier g q}
       \<and> length (neighbours (update_neighbours g p) p) \<le> 4"
proof (cases p)
  case (Pair r c)
  let ?ns = "neighbours (update_neighbours g (r, c)) (r, c)"
  have eq: "?ns = filter (\<lambda>q. in_grid g q \<and> \<not> is_barrier g q)
                    [(r + 1, c), (r - 1, c), (r, c + 1), (r, c - 1)]"
    using assms Pair by (simp only: update_neighbours_filter)
  have "set ?ns = {q. adjacent (r, c) q \<and> in_grid g q \<and> \<not> is_barrier g q}"
    unfolding eq by (auto simp: adjacent_def)
  moreover have "length ?ns \<le> 4"
    unfolding update_neighbours_list by simp
  ultimately show ?thesis
    using Pair eq by simp
qed

theorem update_neighbours_exact_witness:
  "in_grid enclosed_grid (1, 1) \<and>
   neighbours (update_neighbours enclosed_grid (1, 1)) (1, 1) = [(2, 1), (1, 2)]"
proof -
  have h: "in_grid enclosed_grid (1, 1)"
    by (simp add: in_grid_def enclosed_grid_def make_barrier_def make_end_def make_start_def
        set_color_def create_grid_def)
  show ?thesis
    using h update_neighbours_exact [OF h]
    by (simp add: in_grid_def is_barrier_def enclosed_grid_def make_barrier_def make_end_def
        make_start_def set_color_def create_grid_def)
qed

text \<open>
  Claim C8. Recomputing the neighbours of a cell a second time, with no edit in between,
  changes nothing: the grid, and with it the cell's list, is the one the first call left.
\<close>

theorem update_neighbours_idempotent:
  "update_neighbours (update_neighbours g p) p = update_neighbours g p \<and>
   neighbours (update_neighbours (update_neighbours g p) p) p = neighbours (update_neighbours g p) p"
  by (simp add: update_neighbours_def Let_def is_barrier_def)

section \<open>Running the search on a given grid\<close>

lemma set_nodes: "set (nodes g) = {p. in_grid g p}"
  by (auto simp: nodes_def in_grid_def)

lemma neighbours_update_neighbours:
  "neighbours (update_neighbours g q) p = (if p = q then passable g q else neighbours g p)"
  by (simp add: passable_def) (simp add: update_neighbours_def Let_def)

lemma color_update_neighbours: "color (update_neighbours g q) = color g"
  by (simp add: update_neighbours_def Let_def)

lemma total_rows_update_neighbours: "total_rows (update_neighbours g q) = total_rows g"
  by (simp add: update_neighbours_def Let_def)

lemma passable_cong:
  "color G = color g \<Longrightarrow> total_rows G = total_rows g \<Longrightarrow> passable G x = passable g x"
  by (cases x) (simp add: passable_def update_neighbours_list is_barrier_def)

lemma fold_update_neighbours:
  "color (fold (\<lambda>node g. update_neighbours g node) ps g) = color g \<and>
   total_rows (fold (\<lambda>node g. update_neighbours g node) ps g) = total_rows g \<and>
   neighbours (fold (\<lambda>node g. update_neighbours g node) ps g) p
     = (if p \<in> set ps then passable g p else neighbours g p)"
proof (induction ps rule: rev_induct)
  case Nil
  show ?case by simp
next
  case (snoc x xs)
  let ?G = "fold (\<lambda>node g. update_neighbours g node) xs g"
  have "passable ?G x = passable g x"
    using snoc by (intro passable_cong) simp_all
  then show ?case
    using snoc
    by (simp add: neighbours_update_neighbours color_update_neighbours total_rows_update_neighbours)
qed

lemma update_all_color: "color (update_all_neighbours g) = color g"
  using fold_update_neighbours [of "nodes g" g] by (simp add: update_all_neighbours_def)

lemma update_all_total_rows: "total_rows (update_all_neighbours g) = total_rows g"
  using fold_update_neighbours [of "nodes g" g] by (simp add: update_all_neighbours_def)

lemma update_all_neighbours_at:
  "neighbours (update_all_neighbours g) p = (if in_grid g p then passable g p else neighbours g p)"
  using fold_update_neighbours [of "nodes g" g p] by (simp add: update_all_neighbours_def set_nodes)

lemma in_grid_update_all: "in_grid (update_all_neighbours g) = in_grid g"
  by (simp add: fun_eq_iff in_grid_def update_all_total_rows)

lemma neighbours_marks:
  "neighbours (make_open g p) = neighbours g"
  "neighbours (make_closed g p) = neighbours g"
  "neighbours (make_path g p) = neighbours g"
  "neighbours (make_end g p) = neighbours g"
  by (simp_all add: make_open_def make_closed_def make_path_def make_end_def set_color_def)

lemma color_marks:
  "color (make_open g p) = (color g)(p := GREEN)"
  "color (make_closed g p) = (color g)(p := RED)"
  "color (make_path g p) = (color g)(p := PURPLE)"
  "color (make_end g p) = (color g)(p := BLUE)"
  by (simp_all add: make_open_def make_closed_def make_path_def make_end_def set_color_def)

lemma search_loop_Nil:
  "search_loop draw start end_node
     \<lparr>the_grid = G, world = w, count = c, open_set = [], came_from = cf,
      g_score = gs, f_score = fs, open_set_hash = h\<rparr> =
   Some (Inr (False, \<lparr>the_grid = G, world = w, count = c, open_set = [], came_from = cf,
      g_score = gs, f_score = fs, open_set_hash = h\<rparr>))"
  by (subst search_loop.simps) simp

lemma search_loop_Cons:
  "search_loop draw start end_node
     \<lparr>the_grid = G, world = w, count = c, open_set = (f, k, current) # remaining, came_from = cf,
      g_score = gs, f_score = fs, open_set_hash = h\<rparr> =
   (if current \<notin> h then Some (Inl KeyError)
    else if current = end_node then
      (case reconstruct_path cf end_node draw (G, w) of
         None \<Rightarrow> None
       | Some gw \<Rightarrow>
           Some (Inr (True, \<lparr>the_grid = make_end (fst gw) end_node, world = snd gw, count = c,
             open_set = remaining, came_from = cf, g_score = gs, f_score = fs,
             open_set_hash = h - {current}\<rparr>)))
    else
      (case expand draw start end_node current
              \<lparr>the_grid = G, world = w, count = c, open_set = remaining, came_from = cf,
               g_score = gs, f_score = fs, open_set_hash = h - {current}\<rparr> of
         Inl e \<Rightarrow> Some (Inl e)
       | Inr s4 \<Rightarrow> search_loop draw start end_node s4))"
  by (subst search_loop.simps) (simp add: Let_def split: option.split)

lemma relax_eval:
  "relax end_node current nb
     \<lparr>the_grid = G, world = w, count = c, open_set = q, came_from = cf,
      g_score = gs, f_score = fs, open_set_hash = h\<rparr> =
   (case gs current of
      None \<Rightarrow> Inl KeyError
    | Some gc \<Rightarrow>
        (case gs nb of
           None \<Rightarrow> Inl KeyError
         | Some gn \<Rightarrow>
             if gc + 1 < gn then
               if nb \<notin> h then
                 Inr \<lparr>the_grid = make_open G nb, world = w, count = c + 1,
                      open_set = put (gc + 1 + enat (nat (heuristic nb end_node)), c + 1, nb) q,
                      came_from = cf(nb \<mapsto> current), g_score = gs(nb \<mapsto> gc + 1),
                      f_score = fs(nb \<mapsto> gc + 1 + enat (nat (heuristic nb end_node))),
                      open_set_hash = insert nb h\<rparr>
               else
                 Inr \<lparr>the_grid = G, world = w, count = c, open_set = q,
                      came_from = cf(nb \<mapsto> current), g_score = gs(nb \<mapsto> gc + 1),
                      f_score = fs(nb \<mapsto> gc + 1 + enat (nat (heuristic nb end_node))),
                      open_set_hash = h\<rparr>
             else
               Inr \<lparr>the_grid = G, world = w, count = c, open_set = q, came_from = cf,
                    g_score = gs, f_score = fs, open_set_hash = h\<rparr>))"
  by (simp add: relax_def Let_def get_pos_def split: option.split)

lemma expand_eval:
  "expand draw start end_node current
     \<lparr>the_grid = G, world = w, count = c, open_set = q, came_from = cf,
      g_score = gs, f_score = fs, open_set_hash = h\<rparr> =
   (case relax_all end_node current (neighbours G current)
           \<lparr>the_grid = G, world = w, count = c, open_set = q, came_from = cf,
            g_score = gs, f_score = fs, open_set_hash = h\<rparr> of
      Inl e \<Rightarrow> Inl e
    | Inr s2 \<Rightarrow>
        Inr \<lparr>the_grid = (if current \<noteq> start then make_closed (the_grid s2) current else the_grid s2),
             world = draw (the_grid s2) (world s2), count = count s2, open_set = open_set s2,
             came_from = came_from s2, g_score = g_score s2, f_score = f_score s2,
             open_set_hash = open_set_hash s2\<rparr>)"
  by (simp add: expand_def Let_def split: sum.split)

lemma reconstruct_path_eval:
  "reconstruct_path cf p draw (G, w) =
     (case cf p of
        None \<Rightarrow> Some (G, w)
      | Some q \<Rightarrow>
          reconstruct_path cf q draw
            (if \<not> is_start G q then make_path G q else G,
             draw (if \<not> is_start G q then make_path G q else G) w))"
  by (subst reconstruct_path.simps) (simp add: Let_def split: option.split)

lemma initial_eval:
  "initial (update_all_neighbours g) start end_node w =
     \<lparr>the_grid = update_all_neighbours g, world = w, count = 0,
      open_set = [(0, 0, start)],
      came_from = Map.empty,
      g_score = (\<lambda>node. if in_grid g node then Some \<infinity> else None)(start \<mapsto> 0),
      f_score = (\<lambda>node. if in_grid g node then Some \<infinity> else None)
                  (start \<mapsto> enat (nat (heuristic (get_pos start) (get_pos end_node)))),
      open_set_hash = {start}\<rparr>"
  by (simp add: initial_def set_nodes in_grid_def update_all_total_rows)

lemmas run_simps = expand_eval relax_eval neighbours_marks update_all_neighbours_at in_grid_def
  passable_def update_neighbours_list is_barrier_def numeral_eq_enat one_enat_def zero_enat_def

lemma enclosed_grid_eval:
  "total_rows enclosed_grid = 3"
  "color enclosed_grid =
     (\<lambda>_. WHITE)((0, 0) := PINK, (2, 2) := BLUE, (0, 1) := BLACK, (1, 0) := BLACK)"
  by (simp_all add: enclosed_grid_def make_barrier_def make_end_def make_start_def set_color_def
      create_grid_def)

lemma small_grid_eval:
  "total_rows small_grid = 3"
  "color small_grid = (\<lambda>_. WHITE)((0, 0) := PINK, (1, 1) := BLUE)"
  by (simp_all add: small_grid_def make_end_def make_start_def set_color_def create_grid_def)

lemma detour_grid_eval:
  "total_rows detour_grid = 8"
  "color detour_grid = (\<lambda>_. WHITE)((2, 0) := PINK, (0, 7) := BLUE,
     (0, 0) := BLACK, (0, 1) := BLACK, (0, 6) := BLACK, (1, 3) := BLACK, (1, 4) := BLACK,
     (1, 6) := BLACK, (2, 1) := BLACK, (2, 4) := BLACK, (4, 0) := BLACK, (4, 1) := BLACK,
     (4, 2) := BLACK, (4, 3) := BLACK, (4, 4) := BLACK)"
  by (simp_all add: detour_grid_def make_barrier_def make_end_def make_start_def set_color_def
      create_grid_def)

section \<open>The search is not optimal\<close>

lemma detour_run:
  "\<exists>s'. a_star_algorithm (\<lambda>g w. w) (update_all_neighbours detour_grid) (2, 0) (0, 7) ()
           = Some (Inr (True, s'))
       \<and> chain_length (came_from s') (0, 7) 0 = Some 13"
  apply (simp add: a_star_algorithm_def initial_eval)
  apply ((subst search_loop_Cons, simp add: run_simps detour_grid_eval)+)
  apply ((subst reconstruct_path_eval,
          simp add: is_start_def color_marks update_all_color detour_grid_eval)+)
  apply ((subst chain_length.simps, simp)+)
  done

lemma detour_shorter:
  "free_path (update_all_neighbours detour_grid)
     [(2, 0), (3, 0), (3, 1), (3, 2), (3, 3), (3, 4), (3, 5), (2, 5), (2, 6), (2, 7), (1, 7), (0, 7)]"
  by (simp add: free_path_def adjacent_def in_grid_def is_barrier_def update_all_color
      update_all_total_rows detour_grid_eval)

text \<open>
  Claim C1 fails on the code. On \<open>detour_grid\<close>, with start \<open>(2, 0)\<close>, end \<open>(0, 7)\<close> and the
  neighbour lists up to date, \<^verbatim>\<open>a_star_algorithm\<close> returns \<^verbatim>\<open>True\<close> and the walk along
  \<^verbatim>\<open>came_from\<close> from the end back to the start has 13 steps, although a barrier-free path of
  11 moves joins the two cells. The cell \<open>(3, 5)\<close> is first reached through the upper corridor
  and queued with the priority of that route; when the lower corridor improves its
  \<^verbatim>\<open>g_score\<close> it is already in \<^verbatim>\<open>open_set_hash\<close>, so its queue entry keeps the old priority
  and the end is popped before it.
\<close>

theorem a_star_path_not_shortest:
  "(\<exists>s'. a_star_algorithm (\<lambda>g w. w) (update_all_neighbours detour_grid) (2, 0) (0, 7) ()
           = Some (Inr (True, s'))
        \<and> chain_length (came_from s') (0, 7) 0 = Some 13)
   \<and> free_path (update_all_neighbours detour_grid)
        [(2, 0), (3, 0), (3, 1), (3, 2), (3, 3), (3, 4), (3, 5), (2, 5), (2, 6), (2, 7), (1, 7), (0, 7)]
   \<and> length [(2, 0), (3, 0), (3, 1), (3, 2), (3, 3), (3, 4), (3, 5), (2, 5), (2, 6), (2, 7),
              (1, 7), (0 :: int, 7 :: int)] - 1 = 11"
  using detour_run detour_shorter by simp

end
